theory Spec2Isabelle
  imports Main
begin

section \<open>Text as Python handles it\<close>

text \<open>
  A Python \<open>str\<close> is a sequence of code points. The device protocol is plain text, and
  the model reads a \<open>char\<close> as the code point of its value, so it covers every text
  whose code points lie below 256. The library operations the client relies on
  (\<open>str.split\<close>, \<open>str.strip\<close>, \<open>str.upper\<close>, \<open>str.startswith\<close>, \<open>int\<close>) are written out
  below for that range.
\<close>

definition CR :: char where
  "CR = CHR 0x0D"

definition LF :: char where
  "LF = CHR 0x0A"

definition comma :: char where
  "comma = CHR '',''"

text \<open>
  \<open>str.isspace\<close> on one code point: TAB..CR, FS..US, SPACE, NEL and NBSP are the
  white-space code points below 256.
\<close>

definition isspace :: "char \<Rightarrow> bool" where
  "isspace c = (let n = (of_char c :: nat) in
     (9 \<le> n \<and> n \<le> 13) \<or> (28 \<le> n \<and> n \<le> 32) \<or> n = 133 \<or> n = 160)"

text \<open>\<open>s.strip()\<close>: leading and trailing white space removed.\<close>

definition strip :: "string \<Rightarrow> string" where
  "strip s = rev (dropWhile isspace (rev (dropWhile isspace s)))"


text \<open>
  \<open>s.split("\r\n")\<close>: the text is cut at every occurrence of CR LF, scanning from the
  left; the result always has at least one element.
\<close>

fun split_crlf :: "string \<Rightarrow> string list" where
  "split_crlf [] = [[]]"
| "split_crlf [c] = [[c]]"
| "split_crlf (c # d # cs) =
     (if c = CR \<and> d = LF then [] # split_crlf cs
      else (case split_crlf (d # cs) of
              [] \<Rightarrow> [[c]]
            | h # t \<Rightarrow> (c # h) # t))"

text \<open>\<open>s.split(sep)\<close> for a separator of one character.\<close>

fun split_chr :: "char \<Rightarrow> string \<Rightarrow> string list" where
  "split_chr sep [] = [[]]"
| "split_chr sep (c # cs) =
     (if c = sep then [] # split_chr sep cs
      else (case split_chr sep cs of
              [] \<Rightarrow> [[c]]
            | h # t \<Rightarrow> (c # h) # t))"

text \<open>\<open>s.split(sep, maxsplit)\<close> for a separator of one character: at most \<open>maxsplit\<close> cuts.\<close>

fun split_chr_max :: "char \<Rightarrow> nat \<Rightarrow> string \<Rightarrow> string list" where
  "split_chr_max sep 0 s = [s]"
| "split_chr_max sep (Suc n) [] = [[]]"
| "split_chr_max sep (Suc n) (c # cs) =
     (if c = sep then [] # split_chr_max sep n cs
      else (case split_chr_max sep (Suc n) cs of
              [] \<Rightarrow> [[c]]
            | h # t \<Rightarrow> (c # h) # t))"



text \<open>
  \<open>int(s)\<close> for a text \<open>s\<close>, base ten: optional white space, an optional sign, digits
  that single underscores may separate, optional white space. Anything else raises
  \<open>ValueError\<close> (\<open>None\<close> here), and so does a literal of more than 4300 digits, the
  interpreter's default limit on the conversion. The white space that \<open>int\<close> skips is
  TAB..CR and SPACE, and NEL and NBSP; unlike \<open>strip\<close> it does not skip FS..US.
\<close>

definition int_space :: "char \<Rightarrow> bool" where
  "int_space c = (let n = (of_char c :: nat) in
     (9 \<le> n \<and> n \<le> 13) \<or> n = 32 \<or> n = 133 \<or> n = 160)"

definition is_digit :: "char \<Rightarrow> bool" where
  "is_digit c = (let n = (of_char c :: nat) in 48 \<le> n \<and> n \<le> 57)"

definition underscore :: char where
  "underscore = CHR ''_''"

definition digit_value :: "char \<Rightarrow> int" where
  "digit_value c = int (of_char c) - 48"

definition int_max_str_digits :: nat where
  "int_max_str_digits = 4300"

text \<open>No two underscores in a row.\<close>

fun single_underscores :: "string \<Rightarrow> bool" where
  "single_underscores (c # d # cs) =
     (\<not> (c = underscore \<and> d = underscore) \<and> single_underscores (d # cs))"
| "single_underscores cs = True"

definition digits_value :: "string \<Rightarrow> int" where
  "digits_value ds = foldl (\<lambda>acc c. acc * 10 + digit_value c) 0 ds"

definition py_int :: "string \<Rightarrow> int option" where
  "py_int s =
     (let t = dropWhile int_space s;
          negative = (t \<noteq> [] \<and> hd t = CHR ''-'');
          u = (if t \<noteq> [] \<and> (hd t = CHR ''+'' \<or> hd t = CHR ''-'') then tl t else t);
          body = takeWhile (\<lambda>c. is_digit c \<or> c = underscore) u;
          rest = dropWhile (\<lambda>c. is_digit c \<or> c = underscore) u;
          ds = filter is_digit body
      in if body = [] \<or> hd body = underscore \<or> last body = underscore
            \<or> \<not> single_underscores body \<or> \<not> list_all int_space rest
            \<or> int_max_str_digits < length ds
         then None
         else Some (if negative then - digits_value ds else digits_value ds))"

section \<open>Exceptions as values\<close>

text \<open>
  The exceptions that indexing a list and subscripting a dictionary can raise. A
  function that may raise returns \<open>error + 'a\<close>, with \<open>Inl\<close> the exception.
\<close>

datatype error = IndexError | KeyError

definition bind_err :: "error + 'a \<Rightarrow> ('a \<Rightarrow> error + 'b) \<Rightarrow> error + 'b" where
  "bind_err m f = (case m of Inl e \<Rightarrow> Inl e | Inr x \<Rightarrow> f x)"

text \<open>\<open>xs[i]\<close> for an index that is not negative.\<close>

definition getitem :: "'a list \<Rightarrow> nat \<Rightarrow> error + 'a" where
  "getitem xs i = (if i < length xs then Inr (xs ! i) else Inl IndexError)"



text \<open>\<open>d.get(k, default)\<close>.\<close>

definition dict_get :: "('k \<times> 'v) list \<Rightarrow> 'k \<Rightarrow> 'v \<Rightarrow> 'v" where
  "dict_get d k dflt = (case map_of d k of None \<Rightarrow> dflt | Some v \<Rightarrow> v)"

section \<open>Data model\<close>

text \<open>Device mode, from field 3 of the STATUS\_SIMPLE line; the members in declaration order.\<close>

datatype DeviceMode =
  DM_IDLE | DM_TRAY_OPEN | DM_REWIND | DM_FAST_FORWARD | DM_SLOW_MOTION
  | DM_STANDBY | DM_PLAYING | DM_PAUSED | DM_UNKNOWN

definition DeviceMode_members :: "DeviceMode list" where
  "DeviceMode_members =
     [DM_IDLE, DM_TRAY_OPEN, DM_REWIND, DM_FAST_FORWARD, DM_SLOW_MOTION,
      DM_STANDBY, DM_PLAYING, DM_PAUSED, DM_UNKNOWN]"

fun DeviceMode_value :: "DeviceMode \<Rightarrow> string" where
  "DeviceMode_value DM_IDLE = ''00''"
| "DeviceMode_value DM_TRAY_OPEN = ''01''"
| "DeviceMode_value DM_REWIND = ''02''"
| "DeviceMode_value DM_FAST_FORWARD = ''05''"
| "DeviceMode_value DM_SLOW_MOTION = ''06''"
| "DeviceMode_value DM_STANDBY = ''07''"
| "DeviceMode_value DM_PLAYING = ''08''"
| "DeviceMode_value DM_PAUSED = ''09''"
| "DeviceMode_value DM_UNKNOWN = ''FF''"

fun DeviceMode_name :: "DeviceMode \<Rightarrow> string" where
  "DeviceMode_name DM_IDLE = ''IDLE''"
| "DeviceMode_name DM_TRAY_OPEN = ''TRAY_OPEN''"
| "DeviceMode_name DM_REWIND = ''REWIND''"
| "DeviceMode_name DM_FAST_FORWARD = ''FAST_FORWARD''"
| "DeviceMode_name DM_SLOW_MOTION = ''SLOW_MOTION''"
| "DeviceMode_name DM_STANDBY = ''STANDBY''"
| "DeviceMode_name DM_PLAYING = ''PLAYING''"
| "DeviceMode_name DM_PAUSED = ''PAUSED''"
| "DeviceMode_name DM_UNKNOWN = ''UNKNOWN''"

text \<open>Playback state, from field 0 of the PST line; the members in declaration order.\<close>

datatype PlaybackState =
  PS_STOPPED | PS_PLAYING | PS_PAUSED | PS_FAST_FORWARD | PS_REWIND
  | PS_SLOW_MOTION | PS_UNKNOWN

definition PlaybackState_members :: "PlaybackState list" where
  "PlaybackState_members =
     [PS_STOPPED, PS_PLAYING, PS_PAUSED, PS_FAST_FORWARD, PS_REWIND,
      PS_SLOW_MOTION, PS_UNKNOWN]"

fun PlaybackState_value :: "PlaybackState \<Rightarrow> string" where
  "PlaybackState_value PS_STOPPED = ''0''"
| "PlaybackState_value PS_PLAYING = ''1''"
| "PlaybackState_value PS_PAUSED = ''2''"
| "PlaybackState_value PS_FAST_FORWARD = ''4''"
| "PlaybackState_value PS_REWIND = ''5''"
| "PlaybackState_value PS_SLOW_MOTION = ''6''"
| "PlaybackState_value PS_UNKNOWN = ''99''"

fun PlaybackState_name :: "PlaybackState \<Rightarrow> string" where
  "PlaybackState_name PS_STOPPED = ''STOPPED''"
| "PlaybackState_name PS_PLAYING = ''PLAYING''"
| "PlaybackState_name PS_PAUSED = ''PAUSED''"
| "PlaybackState_name PS_FAST_FORWARD = ''FAST_FORWARD''"
| "PlaybackState_name PS_REWIND = ''REWIND''"
| "PlaybackState_name PS_SLOW_MOTION = ''SLOW_MOTION''"
| "PlaybackState_name PS_UNKNOWN = ''UNKNOWN''"

record PlayerStatus =
  is_on :: bool
  device_mode :: DeviceMode
  playback_state :: PlaybackState
  position_seconds :: int
  speed_multiplier :: int
  clock_time :: "string option"
  raw_pst :: "string option"
  raw_status :: "string option"

section \<open>Transport\<close>

text \<open>
  What \<open>urlopen\<close> and \<open>read\<close> give for one request: an exception of any kind
  (\<open>Unreachable\<close>), or the decoded text of the response body.
\<close>

datatype http_outcome = Unreachable | Response string

text \<open>The result of \<open>_send_raw\<close>: (success, response\_code, data\_lines).\<close>

type_synonym reply = "bool \<times> string option \<times> string list"

definition reply_success :: "reply \<Rightarrow> bool" where
  "reply_success r = fst r"

definition reply_code :: "reply \<Rightarrow> string option" where
  "reply_code r = fst (snd r)"

definition reply_lines :: "reply \<Rightarrow> string list" where
  "reply_lines r = snd (snd r)"

text \<open>What every \<open>except\<close> branch of \<open>_send_raw\<close> returns.\<close>

definition failure_reply :: reply where
  "failure_reply = (False, None, [])"

text \<open>The last three statements of the \<open>with\<close> block, once \<open>response_code\<close> is known.\<close>

definition finish_reply :: "string option \<Rightarrow> string list \<Rightarrow> reply" where
  "finish_reply response_code lines =
     (let data_lines = filter (\<lambda>line. strip line \<noteq> []) (drop 1 lines);
          success = (response_code = Some ''00'')
      in (success, response_code, data_lines))"

text \<open>
  The body of the \<open>with\<close> block of \<open>_send_raw\<close>. An \<open>IndexError\<close> from indexing
  would reach the last \<open>except\<close> branch, which returns the failure reply.
\<close>

definition decode_body :: "string \<Rightarrow> reply" where
  "decode_body raw =
     (let lines = split_crlf raw
      in if lines \<noteq> []
         then (case getitem lines 0 of
                 Inl _ \<Rightarrow> failure_reply
               | Inr first \<Rightarrow>
                   if comma \<in> set first
                   then (case getitem (split_chr_max comma 1 first) 0 of
                           Inl _ \<Rightarrow> failure_reply
                         | Inr p \<Rightarrow> finish_reply (Some p) lines)
                   else finish_reply (Some first) lines)
         else finish_reply None lines)"

text \<open>
  The device: given the bodies posted so far, the latest last, what the latest
  request meets.
\<close>

type_synonym device = "string list \<Rightarrow> http_outcome"

text \<open>\<open>_send_raw\<close>, with the list of bodies posted passed through.\<close>

definition send_raw :: "device \<Rightarrow> string \<Rightarrow> string list \<Rightarrow> reply \<times> string list" where
  "send_raw dev data sent =
     (let sent' = sent @ [data]
      in (case dev sent' of
            Unreachable \<Rightarrow> failure_reply
          | Response raw \<Rightarrow> decode_body raw,
          sent'))"

section \<open>Device client\<close>





text \<open>The two status queries of \<open>get_player_status\<close>.\<close>

definition pst_data :: string where
  "pst_data = ''cCMD_PST.x=100&cCMD_PST.y=100''"

definition status_data :: string where
  "status_data = ''cCMD_RC_STATUS_SIMPLE.x=100&cCMD_RC_STATUS_SIMPLE.y=100''"

text \<open>
  The loop \<open>for ps in PlaybackState: if ps.value == state_val: ...; break\<close>, which
  leaves the initial \<open>UNKNOWN\<close> when no member matches; and the same loop over
  \<open>DeviceMode\<close>.
\<close>

definition match_playback_state :: "string \<Rightarrow> PlaybackState" where
  "match_playback_state state_val =
     (case find (\<lambda>ps. PlaybackState_value ps = state_val) PlaybackState_members of
        Some ps \<Rightarrow> ps
      | None \<Rightarrow> PS_UNKNOWN)"

definition match_device_mode :: "string \<Rightarrow> DeviceMode" where
  "match_device_mode mode_val =
     (case find (\<lambda>dm. DeviceMode_value dm = mode_val) DeviceMode_members of
        Some dm \<Rightarrow> dm
      | None \<Rightarrow> DM_UNKNOWN)"

text \<open>\<open>try: x = int(s) except ValueError: pass\<close>, with \<open>x\<close> holding \<open>dflt\<close> before.\<close>

definition int_or :: "int \<Rightarrow> string \<Rightarrow> int" where
  "int_or dflt s = (case py_int s of Some n \<Rightarrow> n | None \<Rightarrow> dflt)"

text \<open>
  The decoding of one PST line in \<open>get_player_status\<close> (from \<open>parts = raw_pst.split(",")\<close>
  on): (playback\_state, position\_seconds, speed\_multiplier).
\<close>

definition parse_pst_line :: "string \<Rightarrow> error + PlaybackState \<times> int \<times> int" where
  "parse_pst_line raw =
     (let parts = split_chr comma raw
      in if 3 \<le> length parts
         then bind_err (getitem parts 0) (\<lambda>state_val.
              bind_err (getitem parts 1) (\<lambda>p1.
              bind_err (getitem parts 2) (\<lambda>p2.
                Inr (match_playback_state state_val, int_or 0 p1, int_or 0 p2))))
         else Inr (PS_UNKNOWN, 0, 0))"

text \<open>
  The block "Parse PST": (playback\_state, position\_seconds, speed\_multiplier, raw\_pst).
\<close>

definition parse_pst ::
  "string list \<Rightarrow> error + PlaybackState \<times> int \<times> int \<times> string option" where
  "parse_pst pst_lines =
     (if pst_lines \<noteq> []
      then bind_err (getitem pst_lines 0) (\<lambda>raw.
           bind_err (parse_pst_line raw) (\<lambda>(ps, pos, speed).
             Inr (ps, pos, speed, Some raw)))
      else Inr (PS_UNKNOWN, 0, 0, None))"

text \<open>
  The decoding of one STATUS\_SIMPLE line (from \<open>parts = raw_status.split(",")\<close> on):
  (is\_on, device\_mode, clock\_time).
\<close>

definition parse_status_line :: "string \<Rightarrow> error + bool \<times> DeviceMode \<times> string option" where
  "parse_status_line raw =
     (let parts = split_chr comma raw
      in if 14 \<le> length parts
         then bind_err (getitem parts 3) (\<lambda>mode_val.
              let dm = match_device_mode mode_val;
                  on = (dm \<noteq> DM_STANDBY)
              in bind_err (getitem parts 13) (\<lambda>clock.
                   Inr (on, dm, if clock \<noteq> [] then Some clock else None)))
         else Inr (True, DM_UNKNOWN, None))"

text \<open>
  The block "Parse STATUS\_SIMPLE": (is\_on, device\_mode, clock\_time, raw\_status).
\<close>

definition parse_status ::
  "string list \<Rightarrow> error + bool \<times> DeviceMode \<times> string option \<times> string option" where
  "parse_status status_lines =
     (if status_lines \<noteq> []
      then bind_err (getitem status_lines 0) (\<lambda>raw.
           bind_err (parse_status_line raw) (\<lambda>(on, dm, clock).
             Inr (on, dm, clock, Some raw)))
      else Inr (True, DM_UNKNOWN, None, None))"

text \<open>
  \<open>get_player_status\<close> once the two replies are there: \<open>None\<close> when a reply reports
  failure, otherwise the status built from the two parsed blocks.
\<close>

definition player_status_of :: "reply \<Rightarrow> reply \<Rightarrow> error + PlayerStatus option" where
  "player_status_of pst_reply status_reply =
     (if \<not> reply_success pst_reply \<or> \<not> reply_success status_reply then Inr None
      else bind_err (parse_pst (reply_lines pst_reply)) (\<lambda>(ps, pos, speed, rpst).
           bind_err (parse_status (reply_lines status_reply)) (\<lambda>(on, dm, clock, rstatus).
             Inr (Some \<lparr> is_on = on, device_mode = dm, playback_state = ps,
                         position_seconds = pos, speed_multiplier = speed,
                         clock_time = clock, raw_pst = rpst, raw_status = rstatus \<rparr>))))"

text \<open>\<open>get_player_status\<close>: the two posts in sequence, then the decoding.\<close>

definition get_player_status ::
  "device \<Rightarrow> string list \<Rightarrow> (error + PlayerStatus option) \<times> string list" where
  "get_player_status dev sent =
     (let (pst_reply, sent1) = send_raw dev pst_data sent;
          (status_reply, sent2) = send_raw dev status_data sent1
      in (player_status_of pst_reply status_reply, sent2))"

text \<open>The dictionary \<open>state_map\<close> of \<open>get_status\<close>.\<close>

definition state_map :: "(PlaybackState \<times> string) list" where
  "state_map =
     [(PS_STOPPED, ''stopped''),
      (PS_PLAYING, ''playing''),
      (PS_PAUSED, ''paused''),
      (PS_FAST_FORWARD, ''playing''),
      (PS_REWIND, ''playing''),
      (PS_SLOW_MOTION, ''playing'')]"

text \<open>\<open>get_status\<close> after its call of \<open>get_player_status\<close>: (state, position, duration).\<close>

definition status_tuple :: "PlayerStatus option \<Rightarrow> string \<times> int \<times> int" where
  "status_tuple status =
     (case status of
        None \<Rightarrow> (''error'', - 1, - 1)
      | Some st \<Rightarrow>
          if \<not> is_on st then (''standby'', 0, 0)
          else (let state = dict_get state_map (playback_state st) ''off''
                in (state, position_seconds st, 0)))"

definition get_status ::
  "device \<Rightarrow> string list \<Rightarrow> (error + string \<times> int \<times> int) \<times> string list" where
  "get_status dev sent =
     (let (status, sent') = get_player_status dev sent
      in (bind_err status (\<lambda>st. Inr (status_tuple st)), sent'))"

section \<open>Poll coordinator\<close>

text \<open>The states of the host's media player entity.\<close>

datatype MediaPlayerState =
  MPS_OFF | MPS_ON | MPS_IDLE | MPS_PLAYING | MPS_PAUSED | MPS_STANDBY | MPS_BUFFERING

text \<open>
  The values stored in the published dictionary. A time is a number of seconds; it is
  what \<open>utcnow()\<close> returns in the cycle.
\<close>

datatype pyvalue =
  PyNone | PyBool bool | PyInt int | PyStr string | PyState MediaPlayerState | PyTime nat

definition opt_str :: "string option \<Rightarrow> pyvalue" where
  "opt_str s = (case s of None \<Rightarrow> PyNone | Some t \<Rightarrow> PyStr t)"

text \<open>The chain of tests "Map to Home Assistant MediaPlayerState" of \<open>_update\<close>.\<close>

definition media_state :: "PlayerStatus \<Rightarrow> MediaPlayerState" where
  "media_state status =
     (if \<not> is_on status then MPS_OFF
      else if device_mode status = DM_TRAY_OPEN then MPS_IDLE
      else if device_mode status = DM_IDLE then MPS_IDLE
      else if device_mode status = DM_PLAYING then MPS_PLAYING
      else if device_mode status = DM_PAUSED then MPS_PAUSED
      else if device_mode status \<in> set [DM_FAST_FORWARD, DM_REWIND, DM_SLOW_MOTION]
        then MPS_PLAYING
      else MPS_IDLE)"

text \<open>
  \<open>_update\<close> after its call of \<open>get_player_status\<close>: the dictionary \<open>data\<close>, filled key by
  key in the order of the source, starting from the empty one.
\<close>

definition update_data :: "PlayerStatus option \<Rightarrow> nat \<Rightarrow> (string \<rightharpoonup> pyvalue)" where
  "update_data status now =
     (case status of
        None \<Rightarrow>
          Map.empty
            (''state'' \<mapsto> PyNone,
             ''is_on'' \<mapsto> PyNone,
             ''device_mode'' \<mapsto> PyNone,
             ''playback_state'' \<mapsto> PyNone,
             ''media_position'' \<mapsto> PyInt 0,
             ''media_duration'' \<mapsto> PyInt 0,
             ''speed_multiplier'' \<mapsto> PyInt 0,
             ''tray_open'' \<mapsto> PyNone,
             ''clock_time'' \<mapsto> PyNone)
      | Some st \<Rightarrow>
          Map.empty
            (''is_on'' \<mapsto> PyBool (is_on st),
             ''device_mode'' \<mapsto> PyStr (DeviceMode_name (device_mode st)),
             ''device_mode_value'' \<mapsto> PyStr (DeviceMode_value (device_mode st)),
             ''playback_state'' \<mapsto> PyStr (PlaybackState_name (playback_state st)),
             ''playback_state_value'' \<mapsto> PyStr (PlaybackState_value (playback_state st)),
             ''state'' \<mapsto> PyState (media_state st),
             ''media_position'' \<mapsto> PyInt (position_seconds st),
             ''media_position_updated_at'' \<mapsto> PyTime now,
             ''media_duration'' \<mapsto> PyInt 0,
             ''speed_multiplier'' \<mapsto> PyInt (speed_multiplier st),
             ''tray_open'' \<mapsto> PyBool (device_mode st = DM_TRAY_OPEN),
             ''clock_time'' \<mapsto> opt_str (clock_time st),
             ''raw_pst'' \<mapsto> opt_str (raw_pst st),
             ''raw_status'' \<mapsto> opt_str (raw_status st)))"

text \<open>\<open>_update\<close>: one poll cycle at time \<open>now\<close>.\<close>

definition update ::
  "device \<Rightarrow> string list \<Rightarrow> nat \<Rightarrow> (error + (string \<rightharpoonup> pyvalue)) \<times> string list" where
  "update dev sent now =
     (let (status, sent') = get_player_status dev sent
      in (bind_err status (\<lambda>st. Inr (update_data st now)), sent'))"

section \<open>The notions the specification speaks in\<close>

text \<open>\<open>sep.join(xs)\<close>: the texts of \<open>xs\<close> with \<open>sep\<close> between neighbours.\<close>

fun join :: "string \<Rightarrow> string list \<Rightarrow> string" where
  "join sep [] = []"
| "join sep [x] = x"
| "join sep (x # y # ys) = x @ sep @ join sep (y # ys)"

text \<open>A text in which CR LF occurs.\<close>

fun has_crlf :: "string \<Rightarrow> bool" where
  "has_crlf (c # d # cs) = ((c = CR \<and> d = LF) \<or> has_crlf (d # cs))"
| "has_crlf cs = False"

text \<open>A blank line: nothing but white space.\<close>

definition blank :: "string \<Rightarrow> bool" where
  "blank l = list_all isspace l"

text \<open>
  The wire values of the two enumerations as the specification tables them, with
  \<open>UNKNOWN\<close> for every other text.
\<close>

definition PlaybackState_of_wire :: "string \<Rightarrow> PlaybackState" where
  "PlaybackState_of_wire s =
     (if s = ''0'' then PS_STOPPED
      else if s = ''1'' then PS_PLAYING
      else if s = ''2'' then PS_PAUSED
      else if s = ''4'' then PS_FAST_FORWARD
      else if s = ''5'' then PS_REWIND
      else if s = ''6'' then PS_SLOW_MOTION
      else PS_UNKNOWN)"

definition DeviceMode_of_wire :: "string \<Rightarrow> DeviceMode" where
  "DeviceMode_of_wire s =
     (if s = ''00'' then DM_IDLE
      else if s = ''01'' then DM_TRAY_OPEN
      else if s = ''02'' then DM_REWIND
      else if s = ''05'' then DM_FAST_FORWARD
      else if s = ''06'' then DM_SLOW_MOTION
      else if s = ''07'' then DM_STANDBY
      else if s = ''08'' then DM_PLAYING
      else if s = ''09'' then DM_PAUSED
      else DM_UNKNOWN)"

text \<open>
  The PST decode in the specification's words: fewer than three fields give
  \<open>(UNKNOWN, 0, 0)\<close>; otherwise field 0 is matched against the wire values, and fields 1
  and 2 are read as integers, 0 when they do not parse.
\<close>

definition spec_parse_pst :: "string \<Rightarrow> PlaybackState \<times> int \<times> int" where
  "spec_parse_pst line =
     (let fields = split_chr comma line
      in if length fields < 3 then (PS_UNKNOWN, 0, 0)
         else (PlaybackState_of_wire (fields ! 0),
               (case py_int (fields ! 1) of None \<Rightarrow> 0 | Some n \<Rightarrow> n),
               (case py_int (fields ! 2) of None \<Rightarrow> 0 | Some n \<Rightarrow> n)))"

text \<open>
  The STATUS\_SIMPLE decode in the specification's words: fewer than fourteen fields
  give \<open>(UNKNOWN, no clock)\<close>; otherwise field 3 is matched against the wire values and
  field 13 is the clock time, absent when empty.
\<close>

definition spec_parse_status_simple :: "string \<Rightarrow> DeviceMode \<times> string option" where
  "spec_parse_status_simple line =
     (let fields = split_chr comma line
      in if length fields < 14 then (DM_UNKNOWN, None)
         else (DeviceMode_of_wire (fields ! 3),
               if fields ! 13 = [] then None else Some (fields ! 13)))"

text \<open>
  The specification's precedence for the published state, as a list of rules of which
  the first that applies wins, and \<open>IDLE\<close> when none does.
\<close>

definition state_rules :: "((bool \<times> DeviceMode \<Rightarrow> bool) \<times> MediaPlayerState) list" where
  "state_rules =
     [(\<lambda>(on, dm). \<not> on, MPS_OFF),
      (\<lambda>(on, dm). dm = DM_TRAY_OPEN \<or> dm = DM_IDLE, MPS_IDLE),
      (\<lambda>(on, dm). dm = DM_PLAYING, MPS_PLAYING),
      (\<lambda>(on, dm). dm = DM_PAUSED, MPS_PAUSED),
      (\<lambda>(on, dm). dm = DM_FAST_FORWARD \<or> dm = DM_REWIND \<or> dm = DM_SLOW_MOTION, MPS_PLAYING)]"

definition spec_state :: "bool \<Rightarrow> DeviceMode \<Rightarrow> MediaPlayerState" where
  "spec_state on dm =
     (case find (\<lambda>(applies, result). applies (on, dm)) state_rules of
        Some (applies, result) \<Rightarrow> result
      | None \<Rightarrow> MPS_IDLE)"


text \<open>The state texts of the compatibility operation, member by member.\<close>

fun compat_state :: "PlaybackState \<Rightarrow> string" where
  "compat_state PS_STOPPED = ''stopped''"
| "compat_state PS_PLAYING = ''playing''"
| "compat_state PS_PAUSED = ''paused''"
| "compat_state PS_FAST_FORWARD = ''playing''"
| "compat_state PS_REWIND = ''playing''"
| "compat_state PS_SLOW_MOTION = ''playing''"
| "compat_state PS_UNKNOWN = ''off''"

text \<open>The keys of the published dictionary that a cycle with a status fills.\<close>

definition published_keys :: "string set" where
  "published_keys =
     {''state'', ''is_on'', ''device_mode'', ''device_mode_value'', ''playback_state'',
      ''playback_state_value'', ''media_position'', ''media_position_updated_at'',
      ''media_duration'', ''speed_multiplier'', ''tray_open'', ''clock_time'',
      ''raw_pst'', ''raw_status''}"

text \<open>The keys that a cycle without a status fills.\<close>

definition unknown_keys :: "string set" where
  "unknown_keys =
     {''state'', ''is_on'', ''device_mode'', ''playback_state'', ''media_position'',
      ''media_duration'', ''speed_multiplier'', ''tray_open'', ''clock_time''}"

section \<open>Devices to run the client against\<close>

text \<open>A device that no request reaches.\<close>

definition unreachable_device :: device where
  "unreachable_device sent = Unreachable"

text \<open>A device that answers every request with the code 00 and no data line.\<close>

definition bare_ok_device :: device where
  "bare_ok_device sent = Response (''00'' @ [CR, LF])"

text \<open>A device that answers every request with the code 01 and one data line.\<close>

definition refusing_body :: string where
  "refusing_body = ''01,extra'' @ [CR, LF] @ ''linedata'' @ [CR, LF]"

definition refusing_device :: device where
  "refusing_device sent = Response refusing_body"

text \<open>
  A device that answers the PST query with the line \<open>pst\<close> and every other request with
  the line \<open>status\<close>, each under the code 00.
\<close>

definition answering_device :: "string \<Rightarrow> string \<Rightarrow> device" where
  "answering_device pst status sent =
     (if sent \<noteq> [] \<and> last sent = pst_data
      then Response (''00'' @ [CR, LF] @ pst @ [CR, LF])
      else Response (''00'' @ [CR, LF] @ status @ [CR, LF]))"

definition playing_status_line :: string where
  "playing_status_line = ''x,x,x,08,x,x,x,x,x,x,x,x,x,14:32''"

definition standby_status_line :: string where
  "standby_status_line = ''x,x,x,07,x,x,x,x,x,x,x,x,x,''"

section \<open>Splitting and joining\<close>

lemma split_crlf_not_Nil: "split_crlf s \<noteq> []"
  by (induction s rule: split_crlf.induct) (auto split: list.splits)

lemma split_chr_not_Nil: "split_chr c s \<noteq> []"
  by (induction s) (auto split: list.splits)

lemma split_chr_max_not_Nil: "split_chr_max c n s \<noteq> []"
  by (induction c n s rule: split_chr_max.induct) (auto split: list.splits)

lemma join_Cons: "ys \<noteq> [] \<Longrightarrow> join sep (x # ys) = x @ sep @ join sep ys"
  by (cases ys) auto

lemma join_split_crlf: "join [CR, LF] (split_crlf s) = s"
proof (induction s rule: split_crlf.induct)
  case (3 c d cs)
  show ?case
  proof (cases "c = CR \<and> d = LF")
    case True
    with 3 show ?thesis by (simp add: join_Cons split_crlf_not_Nil)
  next
    case False
    obtain h t where ht: "split_crlf (d # cs) = h # t"
      using split_crlf_not_Nil by (cases "split_crlf (d # cs)") auto
    with 3 False have "join [CR, LF] (h # t) = d # cs" by auto
    then have "join [CR, LF] ((c # h) # t) = c # d # cs" by (cases t) auto
    with False ht show ?thesis by auto
  qed
qed simp_all

lemma join_split_chr: "join [c] (split_chr c s) = s"
proof (induction s)
  case (Cons x xs)
  show ?case
  proof (cases "x = c")
    case True
    with Cons show ?thesis by (simp add: join_Cons split_chr_not_Nil)
  next
    case False
    obtain h t where ht: "split_chr c xs = h # t"
      using split_chr_not_Nil by (cases "split_chr c xs") auto
    with Cons have "join [c] (h # t) = xs" by simp
    then have "join [c] ((x # h) # t) = x # xs" by (cases t) auto
    with False ht show ?thesis by simp
  qed
qed simp

lemma split_chr_no_sep: "f \<in> set (split_chr c s) \<Longrightarrow> c \<notin> set f"
  by (induction s arbitrary: f) (auto split: if_splits list.splits)

lemma split_crlf_head: "split_crlf (d # cs) = h # t \<Longrightarrow> h = [] \<or> hd h = d"
  by (cases cs) (auto split: if_splits list.splits)

lemma has_crlf_Cons: "has_crlf (c # h) = ((c = CR \<and> h \<noteq> [] \<and> hd h = LF) \<or> has_crlf h)"
  by (cases h) auto

lemma split_crlf_no_crlf: "l \<in> set (split_crlf s) \<Longrightarrow> \<not> has_crlf l"
proof (induction s arbitrary: l rule: split_crlf.induct)
  case (3 c d cs)
  show ?case
  proof (cases "c = CR \<and> d = LF")
    case True
    with 3 show ?thesis by auto
  next
    case False
    obtain h t where ht: "split_crlf (d # cs) = h # t"
      using split_crlf_not_Nil by (cases "split_crlf (d # cs)") auto
    from split_crlf_head[OF ht] have hd: "h = [] \<or> hd h = d" .
    from 3(2)[OF False] ht have ih: "\<not> has_crlf h" "\<And>x. x \<in> set t \<Longrightarrow> \<not> has_crlf x" by auto
    from "3.prems" False ht have "l = c # h \<or> l \<in> set t" by auto
    then show ?thesis
    proof
      assume "l = c # h"
      with ih(1) hd False show ?thesis by (auto simp: has_crlf_Cons)
    next
      assume "l \<in> set t"
      with ih(2) show ?thesis by blast
    qed
  qed
qed simp_all

lemma strip_empty_iff: "strip l = [] \<longleftrightarrow> blank l"
proof -
  have "strip l = [] \<longleftrightarrow> (\<forall>x \<in> set (dropWhile isspace l). isspace x)"
    by (simp add: strip_def dropWhile_eq_Nil_conv)
  also have "\<dots> \<longleftrightarrow> dropWhile isspace l = []"
    by (metis hd_dropWhile hd_in_set empty_iff list.set(1))
  also have "\<dots> \<longleftrightarrow> blank l"
    by (simp add: dropWhile_eq_Nil_conv blank_def list_all_iff)
  finally show ?thesis .
qed

lemma split_chr_max_first:
  "getitem (split_chr_max c (Suc 0) s) 0 = Inr (takeWhile (\<lambda>x. x \<noteq> c) s)"
  by (induction s) (auto simp: getitem_def split: list.splits)

lemma decode_body_eq:
  "decode_body raw =
     (takeWhile (\<lambda>x. x \<noteq> comma) (hd (split_crlf raw)) = ''00'',
      Some (takeWhile (\<lambda>x. x \<noteq> comma) (hd (split_crlf raw))),
      filter (\<lambda>l. \<not> blank l) (drop 1 (split_crlf raw)))"
proof -
  obtain first rest where fr: "split_crlf raw = first # rest"
    using split_crlf_not_Nil by (cases "split_crlf raw") auto
  have g0: "getitem (first # rest) 0 = Inr first"
    by (simp add: getitem_def)
  have tw: "comma \<notin> set first \<Longrightarrow> takeWhile (\<lambda>x. x \<noteq> comma) first = first"
    by (auto simp: takeWhile_eq_all_conv)
  show ?thesis
  proof (cases "comma \<in> set first")
    case True
    then show ?thesis
      by (simp add: decode_body_def fr g0 finish_reply_def strip_empty_iff split_chr_max_first)
  next
    case False
    then show ?thesis
      by (simp add: decode_body_def fr g0 finish_reply_def strip_empty_iff tw)
  qed
qed

section \<open>The client never raises\<close>

lemma send_raw_sent: "snd (send_raw dev data sent) = sent @ [data]"
  by (simp add: send_raw_def Let_def)

lemma send_raw_reply:
  "fst (send_raw dev data sent) =
     (case dev (sent @ [data]) of Unreachable \<Rightarrow> failure_reply | Response raw \<Rightarrow> decode_body raw)"
  by (simp add: send_raw_def Let_def)

lemma match_playback_state_eq: "match_playback_state s = PlaybackState_of_wire s"
  by (simp add: match_playback_state_def PlaybackState_of_wire_def PlaybackState_members_def)

lemma match_device_mode_eq: "match_device_mode s = DeviceMode_of_wire s"
  by (simp add: match_device_mode_def DeviceMode_of_wire_def DeviceMode_members_def)

lemma parse_pst_line_eq: "parse_pst_line raw = Inr (spec_parse_pst raw)"
  by (simp add: parse_pst_line_def spec_parse_pst_def getitem_def bind_err_def int_or_def
      match_playback_state_eq Let_def)

lemma parse_status_line_eq:
  "parse_status_line raw =
     Inr (fst (spec_parse_status_simple raw) \<noteq> DM_STANDBY,
          fst (spec_parse_status_simple raw), snd (spec_parse_status_simple raw))"
  by (simp add: parse_status_line_def spec_parse_status_simple_def getitem_def bind_err_def
      match_device_mode_eq Let_def)

lemma parse_pst_Nil: "parse_pst [] = Inr (PS_UNKNOWN, 0, 0, None)"
  by (simp add: parse_pst_def)

lemma parse_pst_Cons:
  "parse_pst (raw # rest) =
     Inr (fst (spec_parse_pst raw), fst (snd (spec_parse_pst raw)),
          snd (snd (spec_parse_pst raw)), Some raw)"
  by (simp add: parse_pst_def getitem_def bind_err_def parse_pst_line_eq split: prod.splits)

lemma parse_status_Nil: "parse_status [] = Inr (True, DM_UNKNOWN, None, None)"
  by (simp add: parse_status_def)

lemma parse_status_Cons:
  "parse_status (raw # rest) =
     Inr (fst (spec_parse_status_simple raw) \<noteq> DM_STANDBY,
          fst (spec_parse_status_simple raw), snd (spec_parse_status_simple raw), Some raw)"
  by (simp add: parse_status_def getitem_def bind_err_def parse_status_line_eq split: prod.splits)

lemma parse_pst_total: "\<exists>ps pos speed rpst. parse_pst ls = Inr (ps, pos, speed, rpst)"
  by (cases ls) (simp_all add: parse_pst_Nil parse_pst_Cons)

lemma parse_status_total:
  "\<exists>dm clock rstatus. parse_status ls = Inr (dm \<noteq> DM_STANDBY, dm, clock, rstatus)"
  by (cases ls) (simp_all add: parse_status_Nil parse_status_Cons)

lemma player_status_of_failed:
  "\<not> reply_success a \<or> \<not> reply_success b \<Longrightarrow> player_status_of a b = Inr None"
  by (simp add: player_status_of_def)

lemma player_status_of_ok:
  assumes "reply_success a" "reply_success b"
    and "parse_pst (reply_lines a) = Inr (ps, pos, speed, rpst)"
    and "parse_status (reply_lines b) = Inr (on, dm, clock, rstatus)"
  shows "player_status_of a b =
     Inr (Some \<lparr> is_on = on, device_mode = dm, playback_state = ps,
                 position_seconds = pos, speed_multiplier = speed,
                 clock_time = clock, raw_pst = rpst, raw_status = rstatus \<rparr>)"
  using assms by (simp add: player_status_of_def bind_err_def)

lemma get_player_status_eq:
  "get_player_status dev sent =
     (player_status_of (fst (send_raw dev pst_data sent))
        (fst (send_raw dev status_data (sent @ [pst_data]))),
      sent @ [pst_data, status_data])"
  by (simp add: get_player_status_def send_raw_def Let_def)

lemma player_status_of_total: "\<exists>r. player_status_of a b = Inr r"
proof (cases "reply_success a \<and> reply_success b")
  case True
  obtain ps pos speed rpst where p: "parse_pst (reply_lines a) = Inr (ps, pos, speed, rpst)"
    using parse_pst_total by blast
  obtain dm clock rstatus where
    s: "parse_status (reply_lines b) = Inr (dm \<noteq> DM_STANDBY, dm, clock, rstatus)"
    using parse_status_total by blast
  from True player_status_of_ok[OF _ _ p s] show ?thesis by blast
next
  case False
  then show ?thesis using player_status_of_failed by blast
qed

lemma player_status_of_Some_iff:
  "(\<exists>st. player_status_of a b = Inr (Some st)) \<longleftrightarrow> reply_success a \<and> reply_success b"
proof (cases "reply_success a \<and> reply_success b")
  case True
  obtain ps pos speed rpst where p: "parse_pst (reply_lines a) = Inr (ps, pos, speed, rpst)"
    using parse_pst_total by blast
  obtain dm clock rstatus where
    s: "parse_status (reply_lines b) = Inr (dm \<noteq> DM_STANDBY, dm, clock, rstatus)"
    using parse_status_total by blast
  from True player_status_of_ok[OF _ _ p s] show ?thesis by simp
next
  case False
  then show ?thesis using player_status_of_failed[of a b] by auto
qed

lemma player_status_fields:
  assumes "player_status_of a b = Inr (Some st)"
  shows "reply_success a" "reply_success b"
    and "parse_pst (reply_lines a) =
           Inr (playback_state st, position_seconds st, speed_multiplier st, raw_pst st)"
    and "parse_status (reply_lines b) =
           Inr (is_on st, device_mode st, clock_time st, raw_status st)"
proof -
  from assms show ok: "reply_success a" "reply_success b"
    using player_status_of_Some_iff by blast+
  obtain ps pos speed rpst where p: "parse_pst (reply_lines a) = Inr (ps, pos, speed, rpst)"
    using parse_pst_total by blast
  obtain dm clock rstatus where
    s: "parse_status (reply_lines b) = Inr (dm \<noteq> DM_STANDBY, dm, clock, rstatus)"
    using parse_status_total by blast
  from player_status_of_ok[OF ok p s] assms
  have "st = \<lparr> is_on = dm \<noteq> DM_STANDBY, device_mode = dm, playback_state = ps,
                 position_seconds = pos, speed_multiplier = speed,
                 clock_time = clock, raw_pst = rpst, raw_status = rstatus \<rparr>"
    by simp
  with p s show "parse_pst (reply_lines a) =
           Inr (playback_state st, position_seconds st, speed_multiplier st, raw_pst st)"
    and "parse_status (reply_lines b) =
           Inr (is_on st, device_mode st, clock_time st, raw_status st)"
    by simp_all
qed

lemma player_status_is_on:
  assumes "player_status_of a b = Inr (Some st)"
  shows "is_on st = (device_mode st \<noteq> DM_STANDBY)"
proof -
  obtain dm clock rstatus where
    s: "parse_status (reply_lines b) = Inr (dm \<noteq> DM_STANDBY, dm, clock, rstatus)"
    using parse_status_total by blast
  with player_status_fields(4)[OF assms] show ?thesis by auto
qed

section \<open>The client on the devices above\<close>

lemma get_player_status_total: "\<exists>r. fst (get_player_status dev sent) = Inr r"
  by (simp add: get_player_status_eq player_status_of_total)

lemma decode_bare_ok: "decode_body (''00'' @ [CR, LF]) = (True, Some ''00'', [])"
  by (simp add: decode_body_def CR_def LF_def comma_def getitem_def finish_reply_def strip_def)

lemma get_status_eq:
  "fst (get_status dev sent) =
     bind_err (fst (get_player_status dev sent)) (\<lambda>st. Inr (status_tuple st))"
  by (simp add: get_status_def split: prod.splits)

lemma update_eq:
  "fst (update dev sent now) =
     bind_err (fst (get_player_status dev sent)) (\<lambda>st. Inr (update_data st now))"
  by (simp add: update_def split: prod.splits)

lemma bare_ok_reply: "fst (send_raw bare_ok_device data sent) = (True, Some ''00'', [])"
  by (simp only: send_raw_reply bare_ok_device_def http_outcome.case decode_bare_ok)

lemma bare_ok_status:
  "fst (get_player_status bare_ok_device sent) =
     Inr (Some \<lparr> is_on = True, device_mode = DM_UNKNOWN, playback_state = PS_UNKNOWN,
                 position_seconds = 0, speed_multiplier = 0, clock_time = None,
                 raw_pst = None, raw_status = None \<rparr>)"
  by (simp add: get_player_status_eq bare_ok_reply player_status_of_def reply_success_def
      reply_lines_def parse_pst_Nil parse_status_Nil bind_err_def)

lemma unreachable_status: "fst (get_player_status unreachable_device sent) = Inr None"
  by (simp add: get_player_status_eq send_raw_reply unreachable_device_def failure_reply_def
      player_status_of_def reply_success_def)

lemma standby_status:
  "fst (get_player_status (answering_device ''1,125,0'' standby_status_line) []) =
     Inr (Some \<lparr> is_on = False, device_mode = DM_STANDBY, playback_state = PS_PLAYING,
                 position_seconds = 125, speed_multiplier = 0, clock_time = None,
                 raw_pst = Some ''1,125,0'',
                 raw_status = Some ''x,x,x,07,x,x,x,x,x,x,x,x,x,'' \<rparr>)"
  by code_simp

lemma negative_status:
  "fst (get_player_status (answering_device ''1,-5,0'' playing_status_line) []) =
     Inr (Some \<lparr> is_on = True, device_mode = DM_PLAYING, playback_state = PS_PLAYING,
                 position_seconds = - 5, speed_multiplier = 0, clock_time = Some ''14:32'',
                 raw_pst = Some ''1,-5,0'',
                 raw_status = Some ''x,x,x,08,x,x,x,x,x,x,x,x,x,14:32'' \<rparr>)"
  by code_simp

lemma dict_get_state_map: "dict_get state_map ps ''off'' = compat_state ps"
  by (cases ps) (simp_all add: dict_get_def state_map_def)

lemma spec_state_eq: "media_state st = spec_state (is_on st) (device_mode st)"
  by (cases "device_mode st") (simp_all add: media_state_def spec_state_def state_rules_def)

section \<open>Power state of a returned status\<close>

text \<open>
  Claim C9. Every status that \<open>get_player_status\<close> returns has \<open>is_on\<close> equal to
  \<open>device_mode \<noteq> STANDBY\<close>. That includes the two paths on which the STATUS\_SIMPLE
  part keeps its defaults, an empty set of data lines and a first line of fewer than
  14 fields: there the mode is \<open>UNKNOWN\<close> and the player is reported on.
\<close>
theorem is_on_iff_not_standby:
  assumes "fst (get_player_status dev sent) = Inr (Some st)"
  shows "is_on st = (device_mode st \<noteq> DM_STANDBY)
       \<and> (reply_lines (fst (send_raw dev status_data (sent @ [pst_data]))) = []
            \<or> length (split_chr comma
                 (hd (reply_lines (fst (send_raw dev status_data (sent @ [pst_data])))))) < 14
          \<longrightarrow> device_mode st = DM_UNKNOWN \<and> is_on st)"
proof -
  let ?a = "fst (send_raw dev pst_data sent)"
  let ?b = "fst (send_raw dev status_data (sent @ [pst_data]))"
  from assms have ps: "player_status_of ?a ?b = Inr (Some st)"
    by (simp add: get_player_status_eq)
  have on: "is_on st = (device_mode st \<noteq> DM_STANDBY)"
    by (rule player_status_is_on[OF ps])
  have fields: "parse_status (reply_lines ?b) =
      Inr (is_on st, device_mode st, clock_time st, raw_status st)"
    by (rule player_status_fields(4)[OF ps])
  have dflt: "device_mode st = DM_UNKNOWN"
    if "reply_lines ?b = [] \<or> length (split_chr comma (hd (reply_lines ?b))) < 14"
  proof (cases "reply_lines ?b")
    case Nil
    with fields show ?thesis by (simp add: parse_status_Nil)
  next
    case (Cons raw rest)
    with that have "length (split_chr comma raw) < 14" by simp
    then have "fst (spec_parse_status_simple raw) = DM_UNKNOWN"
      by (simp add: spec_parse_status_simple_def Let_def)
    with fields Cons show ?thesis by (simp add: parse_status_Cons)
  qed
  from on dflt show ?thesis by auto
qed

theorem is_on_iff_not_standby_witness:
  "fst (get_player_status bare_ok_device []) =
     Inr (Some \<lparr> is_on = True, device_mode = DM_UNKNOWN, playback_state = PS_UNKNOWN,
                 position_seconds = 0, speed_multiplier = 0, clock_time = None,
                 raw_pst = None, raw_status = None \<rparr>)
   \<and> reply_lines (fst (send_raw bare_ok_device status_data ([] @ [pst_data]))) = []
   \<and> True = (DM_UNKNOWN \<noteq> DM_STANDBY)"
  using is_on_iff_not_standby[OF bare_ok_status, of "[]"]
  by (simp add: bare_ok_status bare_ok_reply reply_lines_def)

section \<open>The compatibility operation\<close>

text \<open>
  Claim C10. \<open>get_player_status\<close> and \<open>get_status\<close> both return without raising, and
  \<open>get_status\<close> gives the tuple \<open>("error", -1, -1)\<close> exactly when the status is absent.
  For a status that is not on it gives \<open>("standby", 0, 0)\<close>; for one that is on, the
  state text of the playback state, the position, and 0 for the duration, where the
  state text of \<open>UNKNOWN\<close> is \<open>off\<close>.
\<close>
theorem get_status_cases:
  "\<exists>st t. fst (get_player_status dev sent) = Inr st
        \<and> fst (get_status dev sent) = Inr t
        \<and> (t = (''error'', - 1, - 1) \<longleftrightarrow> st = None)
        \<and> (case st of
              None \<Rightarrow> t = (''error'', - 1, - 1)
            | Some s \<Rightarrow>
                t = (if \<not> is_on s then (''standby'', 0, 0)
                     else (compat_state (playback_state s), position_seconds s, 0)))
        \<and> compat_state PS_UNKNOWN = ''off''"
proof -
  obtain st where st: "fst (get_player_status dev sent) = Inr st"
    using get_player_status_total by blast
  then have t: "fst (get_status dev sent) = Inr (status_tuple st)"
    by (simp add: get_status_eq bind_err_def)
  have "status_tuple st = (''error'', - 1, - 1) \<longleftrightarrow> st = None"
    by (cases st) (simp_all add: status_tuple_def Let_def)
  moreover have "case st of
              None \<Rightarrow> status_tuple st = (''error'', - 1, - 1)
            | Some s \<Rightarrow>
                status_tuple st = (if \<not> is_on s then (''standby'', 0, 0)
                     else (compat_state (playback_state s), position_seconds s, 0))"
    by (cases st) (simp_all add: status_tuple_def Let_def dict_get_state_map)
  ultimately show ?thesis using st t by simp
qed

theorem get_status_cases_witness:
  "fst (get_status bare_ok_device []) = Inr (''off'', 0, 0)"
  using get_status_cases[of bare_ok_device "[]"] by (auto simp: bare_ok_status)

section \<open>The published state\<close>

text \<open>
  Claim C4. In a poll cycle whose status is present, the cycle publishes under the key
  \<open>state\<close> the value that the specification's precedence gives for \<open>is_on\<close> and
  \<open>device_mode\<close>: \<open>OFF\<close> when not on, then \<open>IDLE\<close> for \<open>TRAY_OPEN\<close> and \<open>IDLE\<close>, \<open>PLAYING\<close> for
  \<open>PLAYING\<close>, \<open>PAUSED\<close> for \<open>PAUSED\<close>, \<open>PLAYING\<close> for the three seek modes, and \<open>IDLE\<close>
  otherwise. A status whose mode is \<open>STANDBY\<close> is published as \<open>OFF\<close>, whatever its
  playback state.
\<close>
theorem published_state_precedence:
  assumes "fst (get_player_status dev sent) = Inr (Some st)"
  shows "\<exists>m. fst (update dev sent now) = Inr m
           \<and> m ''state'' = Some (PyState (spec_state (is_on st) (device_mode st)))
           \<and> (device_mode st = DM_STANDBY \<longrightarrow> m ''state'' = Some (PyState MPS_OFF))"
proof -
  from assms have u: "fst (update dev sent now) = Inr (update_data (Some st) now)"
    by (simp add: update_eq bind_err_def)
  have s: "update_data (Some st) now ''state'' = Some (PyState (media_state st))"
    by (simp add: update_data_def)
  from assms have "player_status_of (fst (send_raw dev pst_data sent))
      (fst (send_raw dev status_data (sent @ [pst_data]))) = Inr (Some st)"
    by (simp add: get_player_status_eq)
  then have "is_on st = (device_mode st \<noteq> DM_STANDBY)"
    by (rule player_status_is_on)
  then have "device_mode st = DM_STANDBY \<longrightarrow> media_state st = MPS_OFF"
    by (simp add: media_state_def)
  with u s show ?thesis by (simp add: spec_state_eq)
qed

theorem published_state_precedence_witness:
  "\<exists>m. fst (update (answering_device ''1,125,0'' standby_status_line) [] 0) = Inr m
      \<and> m ''state'' = Some (PyState MPS_OFF)"
  using published_state_precedence[OF standby_status, of 0] by auto

lemma dom_update_data_None: "dom (update_data None now) = unknown_keys"
  by (auto simp: update_data_def unknown_keys_def split: if_splits)

lemma dom_update_data_Some: "dom (update_data (Some st) now) = published_keys"
  by (auto simp: update_data_def published_keys_def split: if_splits)

section \<open>A cycle without a status\<close>

text \<open>
  Against claim C3 as it is worded. With the device out of reach the status is absent,
  and the dictionary that the cycle publishes has no entry under
  \<open>media_position_updated_at\<close> nor under \<open>raw_pst\<close>, two of the keys that a cycle with a
  status fills: not every field of the published state is set.
\<close>
theorem unknown_cycle_omits_keys:
  "fst (get_player_status unreachable_device []) = Inr None
   \<and> fst (update unreachable_device [] 0) = Inr (update_data None 0)
   \<and> ''media_position_updated_at'' \<in> published_keys
   \<and> update_data None 0 ''media_position_updated_at'' = None
   \<and> ''raw_pst'' \<in> published_keys
   \<and> update_data None 0 ''raw_pst'' = None"
  by (simp add: unreachable_status update_eq bind_err_def update_data_def published_keys_def)

text \<open>
  Claim C3, amended. In a poll cycle whose status is absent, the cycle publishes a
  dictionary with exactly nine keys: \<open>state\<close>, \<open>is_on\<close>, \<open>device_mode\<close>, \<open>playback_state\<close>,
  \<open>tray_open\<close> and \<open>clock_time\<close> hold \<open>None\<close>, and \<open>media_position\<close>, \<open>media_duration\<close> and
  \<open>speed_multiplier\<close> hold 0. The state is \<open>None\<close>, not \<open>OFF\<close>. The five other keys of a
  cycle with a status (\<open>device_mode_value\<close>, \<open>playback_state_value\<close>,
  \<open>media_position_updated_at\<close>, \<open>raw_pst\<close>, \<open>raw_status\<close>) are left out.
\<close>

theorem unknown_cycle_publishes:
  assumes "fst (get_player_status dev sent) = Inr None"
  shows "\<exists>m. fst (update dev sent now) = Inr m
           \<and> dom m = unknown_keys
           \<and> m ''state'' = Some PyNone
           \<and> m ''is_on'' = Some PyNone
           \<and> m ''device_mode'' = Some PyNone
           \<and> m ''playback_state'' = Some PyNone
           \<and> m ''media_position'' = Some (PyInt 0)
           \<and> m ''media_duration'' = Some (PyInt 0)
           \<and> m ''speed_multiplier'' = Some (PyInt 0)
           \<and> m ''tray_open'' = Some PyNone
           \<and> m ''clock_time'' = Some PyNone
           \<and> m ''state'' \<noteq> Some (PyState MPS_OFF)
           \<and> published_keys - dom m =
               {''device_mode_value'', ''playback_state_value'',
                ''media_position_updated_at'', ''raw_pst'', ''raw_status''}"
proof -
  from assms have u: "fst (update dev sent now) = Inr (update_data None now)"
    by (simp add: update_eq bind_err_def)
  have v: "update_data None now ''state'' = Some PyNone"
    "update_data None now ''is_on'' = Some PyNone"
    "update_data None now ''device_mode'' = Some PyNone"
    "update_data None now ''playback_state'' = Some PyNone"
    "update_data None now ''media_position'' = Some (PyInt 0)"
    "update_data None now ''media_duration'' = Some (PyInt 0)"
    "update_data None now ''speed_multiplier'' = Some (PyInt 0)"
    "update_data None now ''tray_open'' = Some PyNone"
    "update_data None now ''clock_time'' = Some PyNone"
    by (simp_all add: update_data_def)
  have d: "published_keys - unknown_keys =
               {''device_mode_value'', ''playback_state_value'',
                ''media_position_updated_at'', ''raw_pst'', ''raw_status''}"
    by (auto simp: published_keys_def unknown_keys_def)
  from u v d show ?thesis by (simp add: dom_update_data_None)
qed

theorem unknown_cycle_publishes_witness:
  "\<exists>m. fst (update unreachable_device [] 7) = Inr m
      \<and> dom m = unknown_keys \<and> m ''state'' = Some PyNone \<and> m ''is_on'' = Some PyNone"
  using unknown_cycle_publishes[OF unreachable_status, of "[]" 7] by auto

section \<open>When the status is absent\<close>

text \<open>
  Against claim C1 as it is worded. A device that answers both queries with the code
  00 and no data line makes both posts succeed with an empty set of data lines, and
  \<open>get_player_status\<close> returns a status, the one made of the defaults.
\<close>
theorem status_despite_empty_lines:
  "reply_success (fst (send_raw bare_ok_device pst_data []))
   \<and> reply_lines (fst (send_raw bare_ok_device pst_data [])) = []
   \<and> reply_success (fst (send_raw bare_ok_device status_data [pst_data]))
   \<and> reply_lines (fst (send_raw bare_ok_device status_data [pst_data])) = []
   \<and> fst (get_player_status bare_ok_device []) =
       Inr (Some \<lparr> is_on = True, device_mode = DM_UNKNOWN, playback_state = PS_UNKNOWN,
                   position_seconds = 0, speed_multiplier = 0, clock_time = None,
                   raw_pst = None, raw_status = None \<rparr>)"
  by (simp add: bare_ok_reply bare_ok_status reply_success_def reply_lines_def)

text \<open>
  Claim C1, amended. \<open>get_player_status\<close> posts the two queries, never raises, and
  returns absent exactly when one of the two posts reports failure. When both report
  success it returns a status even if a set of data lines is empty: an empty PST set
  leaves \<open>UNKNOWN\<close>, position 0, speed 0 and no raw PST line; an empty STATUS\_SIMPLE
  set leaves the player on, the mode \<open>UNKNOWN\<close>, no clock time and no raw status line.
\<close>

theorem absent_iff_failure:
  "(fst (get_player_status dev sent) = Inr None \<longleftrightarrow>
      \<not> reply_success (fst (send_raw dev pst_data sent))
      \<or> \<not> reply_success (fst (send_raw dev status_data (sent @ [pst_data]))))
   \<and> (\<exists>r. fst (get_player_status dev sent) = Inr r)
   \<and> snd (get_player_status dev sent) = sent @ [pst_data, status_data]
   \<and> (reply_success (fst (send_raw dev pst_data sent))
        \<and> reply_success (fst (send_raw dev status_data (sent @ [pst_data])))
        \<and> reply_lines (fst (send_raw dev pst_data sent)) = []
       \<longrightarrow> (\<exists>st. fst (get_player_status dev sent) = Inr (Some st)
              \<and> playback_state st = PS_UNKNOWN \<and> position_seconds st = 0
              \<and> speed_multiplier st = 0 \<and> raw_pst st = None))
   \<and> (reply_success (fst (send_raw dev pst_data sent))
        \<and> reply_success (fst (send_raw dev status_data (sent @ [pst_data])))
        \<and> reply_lines (fst (send_raw dev status_data (sent @ [pst_data]))) = []
       \<longrightarrow> (\<exists>st. fst (get_player_status dev sent) = Inr (Some st)
              \<and> is_on st \<and> device_mode st = DM_UNKNOWN
              \<and> clock_time st = None \<and> raw_status st = None))"
proof -
  let ?a = "fst (send_raw dev pst_data sent)"
  let ?b = "fst (send_raw dev status_data (sent @ [pst_data]))"
  have g: "fst (get_player_status dev sent) = player_status_of ?a ?b"
    by (simp add: get_player_status_eq)
  have some: "(\<exists>st. player_status_of ?a ?b = Inr (Some st)) \<longleftrightarrow> reply_success ?a \<and> reply_success ?b"
    by (rule player_status_of_Some_iff)
  obtain r where r: "player_status_of ?a ?b = Inr r"
    using player_status_of_total by blast
  have c1: "player_status_of ?a ?b = Inr None \<longleftrightarrow> \<not> reply_success ?a \<or> \<not> reply_success ?b"
    using some r by (cases r) auto
  have c4: "\<exists>st. player_status_of ?a ?b = Inr (Some st)
              \<and> playback_state st = PS_UNKNOWN \<and> position_seconds st = 0
              \<and> speed_multiplier st = 0 \<and> raw_pst st = None"
    if ok: "reply_success ?a" "reply_success ?b" and e: "reply_lines ?a = []"
  proof -
    from some ok obtain st where st: "player_status_of ?a ?b = Inr (Some st)" by blast
    from player_status_fields(3)[OF st] e show ?thesis
      using st by (simp add: parse_pst_Nil)
  qed
  have c5: "\<exists>st. player_status_of ?a ?b = Inr (Some st)
              \<and> is_on st \<and> device_mode st = DM_UNKNOWN
              \<and> clock_time st = None \<and> raw_status st = None"
    if ok: "reply_success ?a" "reply_success ?b" and e: "reply_lines ?b = []"
  proof -
    from some ok obtain st where st: "player_status_of ?a ?b = Inr (Some st)" by blast
    from player_status_fields(4)[OF st] e show ?thesis
      using st by (simp add: parse_status_Nil)
  qed
  show ?thesis
    unfolding g using c1 c4 c5 r by (simp add: get_player_status_eq)
qed

theorem absent_iff_failure_witness:
  "reply_success (fst (send_raw bare_ok_device pst_data []))
   \<and> reply_success (fst (send_raw bare_ok_device status_data ([] @ [pst_data])))
   \<and> reply_lines (fst (send_raw bare_ok_device pst_data [])) = []
   \<and> reply_lines (fst (send_raw bare_ok_device status_data ([] @ [pst_data]))) = []
   \<and> fst (get_player_status bare_ok_device []) \<noteq> Inr None
   \<and> (\<exists>st. fst (get_player_status bare_ok_device []) = Inr (Some st)
          \<and> playback_state st = PS_UNKNOWN \<and> is_on st \<and> device_mode st = DM_UNKNOWN)"
  using absent_iff_failure[of bare_ok_device "[]"]
  by (auto simp: bare_ok_reply reply_success_def reply_lines_def)

lemma split_chr_fields: "list_all (\<lambda>f. c \<notin> set f) (split_chr c s)"
  using split_chr_no_sep by (auto simp: list_all_iff)

lemma player_status_of_lines:
  "\<exists>st. player_status_of (True, c, pl) (True, c', sl) = Inr (Some st)
        \<and> parse_pst pl = Inr (playback_state st, position_seconds st, speed_multiplier st, raw_pst st)
        \<and> parse_status sl = Inr (is_on st, device_mode st, clock_time st, raw_status st)"
proof -
  have "reply_success (True, c, pl) \<and> reply_success (True, c', sl)"
    by (simp add: reply_success_def)
  then obtain st where st: "player_status_of (True, c, pl) (True, c', sl) = Inr (Some st)"
    using player_status_of_Some_iff by blast
  from player_status_fields(3,4)[OF st] st show ?thesis
    by (simp add: reply_lines_def)
qed

section \<open>Decoding the two status lines\<close>

text \<open>
  Claim C6. The decoding of a PST line never raises and gives what the specification
  says: with fewer than three fields \<open>(UNKNOWN, 0, 0)\<close>; otherwise the playback state
  whose wire value is field 0 (\<open>UNKNOWN\<close> when there is none), field 1 as an integer and
  field 2 as an integer, each 0 when it does not parse. The fields are the texts
  between the commas: joined with commas they give the line back, and none contains a
  comma. The status built from successful replies carries these three values and the
  line itself.
\<close>
theorem pst_line_decode:
  "parse_pst_line line = Inr (spec_parse_pst line)
   \<and> join [comma] (split_chr comma line) = line
   \<and> list_all (\<lambda>f. comma \<notin> set f) (split_chr comma line)
   \<and> (\<exists>st. player_status_of (True, c, line # rest) (True, c', ls) = Inr (Some st)
          \<and> (playback_state st, position_seconds st, speed_multiplier st) = spec_parse_pst line
          \<and> raw_pst st = Some line)"
proof -
  obtain st where st: "player_status_of (True, c, line # rest) (True, c', ls) = Inr (Some st)"
    and p: "parse_pst (line # rest) =
      Inr (playback_state st, position_seconds st, speed_multiplier st, raw_pst st)"
    using player_status_of_lines by blast
  from p have "(playback_state st, position_seconds st, speed_multiplier st) = spec_parse_pst line"
    and "raw_pst st = Some line"
    by (simp_all add: parse_pst_Cons prod_eq_iff)
  with st show ?thesis
    by (simp add: parse_pst_line_eq join_split_chr split_chr_fields)
qed

theorem pst_line_decode_witness:
  "parse_pst_line ''1,125,0'' = Inr (PS_PLAYING, 125, 0)
   \<and> parse_pst_line ''1,125'' = Inr (PS_UNKNOWN, 0, 0)
   \<and> parse_pst_line ''7,x,-2'' = Inr (PS_UNKNOWN, 0, - 2)"
proof -
  have "spec_parse_pst ''1,125,0'' = (PS_PLAYING, 125, 0)" by code_simp
  moreover have "spec_parse_pst ''1,125'' = (PS_UNKNOWN, 0, 0)" by code_simp
  moreover have "spec_parse_pst ''7,x,-2'' = (PS_UNKNOWN, 0, - 2)" by code_simp
  ultimately show ?thesis
    using pst_line_decode[of "''1,125,0''"] pst_line_decode[of "''1,125''"]
      pst_line_decode[of "''7,x,-2''"]
    by simp
qed

text \<open>
  Claim C7. The decoding of a STATUS\_SIMPLE line never raises and gives what the
  specification says: with fewer than fourteen fields \<open>UNKNOWN\<close> and no clock time;
  otherwise the device mode whose wire value is field 3 (\<open>UNKNOWN\<close> when there is none)
  and field 13 as the clock time, absent when it is empty. The status built from
  successful replies carries these two values and the line itself.
\<close>
theorem status_line_decode:
  "parse_status_line line =
     Inr (fst (spec_parse_status_simple line) \<noteq> DM_STANDBY,
          fst (spec_parse_status_simple line), snd (spec_parse_status_simple line))
   \<and> join [comma] (split_chr comma line) = line
   \<and> list_all (\<lambda>f. comma \<notin> set f) (split_chr comma line)
   \<and> (\<exists>st. player_status_of (True, c, ls) (True, c', line # rest) = Inr (Some st)
          \<and> (device_mode st, clock_time st) = spec_parse_status_simple line
          \<and> raw_status st = Some line)"
proof -
  obtain st where st: "player_status_of (True, c, ls) (True, c', line # rest) = Inr (Some st)"
    and p: "parse_status (line # rest) =
      Inr (is_on st, device_mode st, clock_time st, raw_status st)"
    using player_status_of_lines by blast
  from p have "(device_mode st, clock_time st) = spec_parse_status_simple line"
    and "raw_status st = Some line"
    by (simp_all add: parse_status_Cons prod_eq_iff)
  with st show ?thesis
    by (simp add: parse_status_line_eq join_split_chr split_chr_fields)
qed

theorem status_line_decode_witness:
  "parse_status_line ''x,x,x,08,x,x,x,x,x,x,x,x,x,14:32'' = Inr (True, DM_PLAYING, Some ''14:32'')
   \<and> parse_status_line ''x,x,x,07,x,x,x,x,x,x,x,x,x,'' = Inr (False, DM_STANDBY, None)
   \<and> parse_status_line ''x,x,x,08,x,x,x,x,x,x,x,x,14:32'' = Inr (True, DM_UNKNOWN, None)"
proof -
  have "spec_parse_status_simple ''x,x,x,08,x,x,x,x,x,x,x,x,x,14:32'' = (DM_PLAYING, Some ''14:32'')"
    by code_simp
  moreover have "spec_parse_status_simple ''x,x,x,07,x,x,x,x,x,x,x,x,x,'' = (DM_STANDBY, None)"
    by code_simp
  moreover have "spec_parse_status_simple ''x,x,x,08,x,x,x,x,x,x,x,x,14:32'' = (DM_UNKNOWN, None)"
    by code_simp
  ultimately show ?thesis
    using status_line_decode[of "''x,x,x,08,x,x,x,x,x,x,x,x,x,14:32''"]
      status_line_decode[of "''x,x,x,07,x,x,x,x,x,x,x,x,x,''"]
      status_line_decode[of "''x,x,x,08,x,x,x,x,x,x,x,x,14:32''"]
    by simp
qed

section \<open>The position of a returned status\<close>

lemma foldl_digits_nonneg:
  "0 \<le> acc \<Longrightarrow> list_all is_digit ds \<Longrightarrow>
     0 \<le> foldl (\<lambda>acc c. acc * 10 + digit_value c) acc ds"
proof (induction ds arbitrary: acc)
  case (Cons d ds)
  from Cons.prems have "0 \<le> digit_value d"
    by (simp add: is_digit_def digit_value_def Let_def)
  with Cons.prems have "0 \<le> acc * 10 + digit_value d" by simp
  with Cons show ?case by simp
qed simp

lemma digits_value_nonneg: "0 \<le> digits_value (filter is_digit body)"
  unfolding digits_value_def by (rule foldl_digits_nonneg) (simp_all add: list_all_iff)

lemma py_int_negative:
  assumes "py_int s = Some n" and "n < 0"
  shows "CHR ''-'' \<in> set s"
proof -
  let ?t = "dropWhile int_space s"
  have neg: "?t \<noteq> [] \<and> hd ?t = CHR ''-''"
  proof (rule ccontr)
    assume "\<not> (?t \<noteq> [] \<and> hd ?t = CHR ''-'')"
    with assms(1) have "\<exists>body. n = digits_value (filter is_digit body)"
      by (auto simp: py_int_def Let_def split: if_splits)
    then obtain body where "n = digits_value (filter is_digit body)" by blast
    with digits_value_nonneg[of body] assms(2) show False by simp
  qed
  then have "CHR ''-'' \<in> set ?t" using hd_in_set by metis
  then show ?thesis by (rule set_dropWhileD)
qed

text \<open>
  Against claim C2 as it is worded. A device whose PST line is \<open>1,-5,0\<close> makes
  \<open>get_player_status\<close> return a status whose position is -5.
\<close>
theorem negative_position_returned:
  "fst (get_player_status (answering_device ''1,-5,0'' playing_status_line) []) =
     Inr (Some \<lparr> is_on = True, device_mode = DM_PLAYING, playback_state = PS_PLAYING,
                 position_seconds = - 5, speed_multiplier = 0, clock_time = Some ''14:32'',
                 raw_pst = Some ''1,-5,0'',
                 raw_status = Some ''x,x,x,08,x,x,x,x,x,x,x,x,x,14:32'' \<rparr>)
   \<and> \<not> 0 \<le> position_seconds
         \<lparr> is_on = True, device_mode = DM_PLAYING, playback_state = PS_PLAYING,
           position_seconds = - 5, speed_multiplier = 0, clock_time = Some ''14:32'',
           raw_pst = Some ''1,-5,0'',
           raw_status = Some ''x,x,x,08,x,x,x,x,x,x,x,x,x,14:32'' \<rparr>"
  by (simp add: negative_status)

text \<open>
  Claim C2, amended. The position of a returned status is an integer: 0 when the PST
  set of data lines is empty, when its first line has fewer than three fields or when
  field 1 is not an integer literal, and the value of field 1 otherwise. It is
  negative only when field 1 is an integer literal of that negative value, written
  with a minus sign; in every other case it is at least 0.
\<close>
theorem position_seconds_value:
  assumes "fst (get_player_status dev sent) = Inr (Some st)"
  shows "position_seconds st =
           (case reply_lines (fst (send_raw dev pst_data sent)) of
              [] \<Rightarrow> 0
            | line # rest \<Rightarrow>
                if length (split_chr comma line) < 3 then 0
                else (case py_int (split_chr comma line ! 1) of None \<Rightarrow> 0 | Some n \<Rightarrow> n))
       \<and> (position_seconds st < 0 \<longrightarrow>
            (\<exists>line rest. reply_lines (fst (send_raw dev pst_data sent)) = line # rest
               \<and> 3 \<le> length (split_chr comma line)
               \<and> py_int (split_chr comma line ! 1) = Some (position_seconds st)
               \<and> CHR ''-'' \<in> set (split_chr comma line ! 1)))"
proof -
  let ?a = "fst (send_raw dev pst_data sent)"
  let ?b = "fst (send_raw dev status_data (sent @ [pst_data]))"
  from assms have ps: "player_status_of ?a ?b = Inr (Some st)"
    by (simp add: get_player_status_eq)
  have fields: "parse_pst (reply_lines ?a) =
      Inr (playback_state st, position_seconds st, speed_multiplier st, raw_pst st)"
    by (rule player_status_fields(3)[OF ps])
  have val: "position_seconds st =
           (case reply_lines ?a of
              [] \<Rightarrow> 0
            | line # rest \<Rightarrow>
                if length (split_chr comma line) < 3 then 0
                else (case py_int (split_chr comma line ! 1) of None \<Rightarrow> 0 | Some n \<Rightarrow> n))"
  proof (cases "reply_lines ?a")
    case Nil
    with fields show ?thesis by (simp add: parse_pst_Nil)
  next
    case (Cons line rest)
    with fields have "position_seconds st = fst (snd (spec_parse_pst line))"
      by (simp add: parse_pst_Cons)
    with Cons show ?thesis by (simp add: spec_parse_pst_def Let_def)
  qed
  have neg: "\<exists>line rest. reply_lines ?a = line # rest
               \<and> 3 \<le> length (split_chr comma line)
               \<and> py_int (split_chr comma line ! 1) = Some (position_seconds st)
               \<and> CHR ''-'' \<in> set (split_chr comma line ! 1)"
    if lt: "position_seconds st < 0"
  proof (cases "reply_lines ?a")
    case Nil
    with val lt show ?thesis by simp
  next
    case (Cons line rest)
    with val lt have len: "3 \<le> length (split_chr comma line)"
      by (auto split: if_splits)
    with val lt Cons have p: "py_int (split_chr comma line ! 1) = Some (position_seconds st)"
      by (auto split: option.splits)
    from py_int_negative[OF p lt] Cons len p show ?thesis by simp
  qed
  from val neg show ?thesis by blast
qed

theorem position_seconds_value_witness:
  "fst (get_player_status (answering_device ''1,-5,0'' playing_status_line) []) =
     Inr (Some \<lparr> is_on = True, device_mode = DM_PLAYING, playback_state = PS_PLAYING,
                 position_seconds = - 5, speed_multiplier = 0, clock_time = Some ''14:32'',
                 raw_pst = Some ''1,-5,0'',
                 raw_status = Some ''x,x,x,08,x,x,x,x,x,x,x,x,x,14:32'' \<rparr>)
   \<and> (\<exists>line rest.
         reply_lines (fst (send_raw (answering_device ''1,-5,0'' playing_status_line) pst_data []))
           = line # rest
         \<and> py_int (split_chr comma line ! 1) = Some (- 5)
         \<and> CHR ''-'' \<in> set (split_chr comma line ! 1))"
  using position_seconds_value[OF negative_status] negative_status by auto

section \<open>Decoding a response\<close>

lemma split_crlf_lines: "list_all (\<lambda>l. \<not> has_crlf l) (split_crlf s)"
  using split_crlf_no_crlf by (auto simp: list_all_iff)

lemma takeWhile_before_sep:
  "c \<in> set s \<Longrightarrow> \<exists>rest. s = takeWhile (\<lambda>x. x \<noteq> c) s @ c # rest"
proof -
  assume "c \<in> set s"
  then have ne: "dropWhile (\<lambda>x. x \<noteq> c) s \<noteq> []"
    by (auto simp: dropWhile_eq_Nil_conv)
  then have "hd (dropWhile (\<lambda>x. x \<noteq> c) s) = c"
    using hd_dropWhile[of "\<lambda>x. x \<noteq> c" s] by simp
  with ne have "dropWhile (\<lambda>x. x \<noteq> c) s = c # tl (dropWhile (\<lambda>x. x \<noteq> c) s)"
    by (cases "dropWhile (\<lambda>x. x \<noteq> c) s") auto
  then have "s = takeWhile (\<lambda>x. x \<noteq> c) s @ c # tl (dropWhile (\<lambda>x. x \<noteq> c) s)"
    using takeWhile_dropWhile_id[of "\<lambda>x. x \<noteq> c" s] by simp
  then show ?thesis by blast
qed

lemma takeWhile_no_sep: "c \<notin> set (takeWhile (\<lambda>x. x \<noteq> c) s)"
  using set_takeWhileD by fastforce

lemma takeWhile_whole: "c \<notin> set s \<Longrightarrow> takeWhile (\<lambda>x. x \<noteq> c) s = s"
  by (auto simp: takeWhile_eq_all_conv)

text \<open>
  Claim C5. When a request meets a response, \<open>_send_raw\<close> cuts the body at every CR LF:
  the lines joined with CR LF give the body back and none contains CR LF. The response
  code is the first line up to its first comma, the whole first line when it has none.
  The data lines are the lines after the first that are not blank, in their order.
  The reply reports success exactly when the code is the text 00.
\<close>
theorem send_raw_decoding:
  assumes "dev (sent @ [data]) = Response raw"
  shows "split_crlf raw \<noteq> []
       \<and> join [CR, LF] (split_crlf raw) = raw
       \<and> list_all (\<lambda>l. \<not> has_crlf l) (split_crlf raw)
       \<and> (\<exists>code. reply_code (fst (send_raw dev data sent)) = Some code
             \<and> code = takeWhile (\<lambda>x. x \<noteq> comma) (hd (split_crlf raw))
             \<and> comma \<notin> set code
             \<and> (comma \<in> set (hd (split_crlf raw))
                  \<longrightarrow> (\<exists>rest. hd (split_crlf raw) = code @ comma # rest))
             \<and> (comma \<notin> set (hd (split_crlf raw)) \<longrightarrow> code = hd (split_crlf raw))
             \<and> reply_success (fst (send_raw dev data sent)) = (code = ''00''))
       \<and> reply_lines (fst (send_raw dev data sent)) =
           filter (\<lambda>l. \<not> blank l) (drop 1 (split_crlf raw))
       \<and> snd (send_raw dev data sent) = sent @ [data]"
proof -
  from assms have r: "fst (send_raw dev data sent) = decode_body raw"
    by (simp add: send_raw_reply)
  show ?thesis
    unfolding r
    by (simp add: decode_body_eq reply_code_def reply_success_def reply_lines_def
        split_crlf_not_Nil join_split_crlf split_crlf_lines send_raw_sent
        takeWhile_no_sep takeWhile_before_sep takeWhile_whole)
qed

lemma refusing_body_lines: "split_crlf refusing_body = [''01,extra'', ''linedata'', []]"
  by (simp add: refusing_body_def CR_def LF_def)

theorem send_raw_decoding_witness:
  "refusing_device ([] @ [pst_data]) = Response refusing_body
   \<and> refusing_body = ''01,extra'' @ [CR, LF] @ ''linedata'' @ [CR, LF]
   \<and> comma \<in> set (hd (split_crlf refusing_body))
   \<and> fst (send_raw refusing_device pst_data []) = (False, Some ''01'', [''linedata''])"
proof -
  have h: "refusing_device ([] @ [pst_data]) = Response refusing_body"
    by (simp add: refusing_device_def)
  have m: "comma \<in> set (hd (split_crlf refusing_body))"
    by (simp add: refusing_body_lines comma_def)
  from send_raw_decoding[of refusing_device "[]" pst_data refusing_body, OF h]
  have "\<exists>code. reply_code (fst (send_raw refusing_device pst_data [])) = Some code
             \<and> code = takeWhile (\<lambda>x. x \<noteq> comma) (hd (split_crlf refusing_body))
             \<and> reply_success (fst (send_raw refusing_device pst_data [])) = (code = ''00'')"
    and "reply_lines (fst (send_raw refusing_device pst_data [])) =
           filter (\<lambda>l. \<not> blank l) (drop 1 (split_crlf refusing_body))"
    by blast+
  then have "fst (send_raw refusing_device pst_data []) = (False, Some ''01'', [''linedata''])"
    by (simp add: refusing_body_lines comma_def blank_def isspace_def prod_eq_iff
        reply_code_def reply_success_def reply_lines_def)
  with h m show ?thesis by (simp add: refusing_body_def)
qed

section \<open>Resolving and sending a command\<close>








end
